theory Spec2Isabelle
  imports Main "HOL-Library.Sublist"
begin

section \<open>Schema types\<close>

text \<open>
  Modelled from the spec: the packages \<open>schema\<close> and \<open>schema/acl\<close> are not among the
  sources; their types are the documents of the data model (Ownership Document,
  Provisioning Status Document, Credential Record, Access Control Entry), with the
  fields and enumeration values the code names. Each enumeration has a further
  constructor for the values the code does not name. A field left out of a Go
  composite literal has its zero value.
\<close>

type_synonym OwnerTransferMethod = int

datatype OperationalState =
    OperationalState_RFOTM
  | OperationalState_RFPRO
  | OperationalState_RFNOP
  | OperationalState_other nat

datatype OperationalMode =
    OperationalMode_CLIENT_DIRECTED
  | OperationalMode_other nat

datatype CredentialType =
    CredentialType_EMPTY
  | CredentialType_SYMMETRIC_PAIR_WISE
  | CredentialType_ASYMMETRIC_SIGNING_WITH_CERTIFICATE
  | CredentialType_other nat

datatype CredentialUsage =
    CredentialUsage_unset
  | CredentialUsage_CERT
  | CredentialUsage_TRUST_CA
  | CredentialUsage_other string

datatype CredentialPublicDataEncoding =
    CredentialPublicDataEncoding_unset
  | CredentialPublicDataEncoding_DER
  | CredentialPublicDataEncoding_other string

datatype CredentialPrivateDataEncoding =
    CredentialPrivateDataEncoding_unset
  | CredentialPrivateDataEncoding_RAW
  | CredentialPrivateDataEncoding_other string

datatype CertificateEncoding =
    CertificateEncoding_PEM
  | CertificateEncoding_DER
  | CertificateEncoding_other string

section \<open>Errors\<close>

text \<open>
  A Go \<open>error\<close> is either produced by a collaborator outside the modelled code
  (\<open>Ext\<close>, carrying its message) or built by \<open>fmt.Errorf\<close> from a format string and
  its arguments, kept as they are in the source. A nil \<open>error\<close> is
  \<open>None :: error option\<close>; a nil error passed as an argument of a format is
  \<open>AErr None\<close>. \<open>ASprintf\<close> is a string built by \<open>fmt.Sprintf\<close>.
\<close>

datatype error =
    Ext string
  | Errorf string "fmtarg list"
and fmtarg =
    AStr string
  | AInt int
  | ANat nat
  | AErr "error option"
  | AOtm OwnerTransferMethod
  | AOtms "OwnerTransferMethod list"
  | AState OperationalState
  | AMode OperationalMode
  | AModes "OperationalMode list"
  | AUsage CredentialUsage
  | ASprintf string "fmtarg list"

section \<open>Documents\<close>

record Doxm =
  Owned :: bool
  DeviceOwner :: string
  DeviceId :: string
  SupportedOwnerTransferMethods :: "OwnerTransferMethod list"
  SelectedOwnerTransferMethod :: OwnerTransferMethod

record DoxmUpdate =
  upd_ResourceOwner :: string
  upd_DeviceId :: string
  upd_Owned :: bool
  upd_DeviceOwner :: string
  upd_SelectOwnerTransferMethod :: OwnerTransferMethod

text \<open>The zero value \<open>schema.DoxmUpdate{}\<close>.\<close>

definition DoxmUpdate_zero :: DoxmUpdate where
  "DoxmUpdate_zero =
     \<lparr>upd_ResourceOwner = '''', upd_DeviceId = '''', upd_Owned = False, upd_DeviceOwner = '''',
      upd_SelectOwnerTransferMethod = 0\<rparr>"

record DeviceOnboardingState =
  Pending :: bool
  CurrentOrPendingOperationalState :: OperationalState

text \<open>\<open>SupportedOperationalModes\<close> is a set of modes; \<open>Has\<close> is membership.\<close>

record ProvisionStatusResponse =
  DeviceOnboardingState :: DeviceOnboardingState
  SupportedOperationalModes :: "OperationalMode list"

record ProvisionStatusUpdateRequest =
  psu_ResourceOwner :: string
  psu_CurrentOperationalMode :: "OperationalMode option"

definition ProvisionStatusUpdateRequest_zero :: ProvisionStatusUpdateRequest where
  "ProvisionStatusUpdateRequest_zero =
     \<lparr>psu_ResourceOwner = '''', psu_CurrentOperationalMode = None\<rparr>"

record CredentialPublicData =
  pub_Data :: string
  pub_Encoding :: CredentialPublicDataEncoding

record CredentialPrivateData =
  priv_Data :: string
  priv_Encoding :: CredentialPrivateDataEncoding

record Credential =
  ID :: int
  Subject :: string
  Type :: CredentialType
  Usage :: CredentialUsage
  PublicData :: CredentialPublicData
  PrivateData :: CredentialPrivateData

text \<open>The zero value \<open>schema.Credential{}\<close>.\<close>

definition Credential_zero :: Credential where
  "Credential_zero =
     \<lparr>ID = 0, Subject = '''', Type = CredentialType_EMPTY, Usage = CredentialUsage_unset,
      PublicData = \<lparr>pub_Data = '''', pub_Encoding = CredentialPublicDataEncoding_unset\<rparr>,
      PrivateData = \<lparr>priv_Data = '''', priv_Encoding = CredentialPrivateDataEncoding_unset\<rparr>\<rparr>"

record CredentialUpdateRequest =
  cur_ResourceOwner :: string
  Credentials :: "Credential list"


datatype acl_Permission = acl_AllPermissions | acl_Permission nat

datatype acl_Subject = Subject_Device string | Subject_other

datatype acl_Resources = acl_AllResources | acl_Resources "string list"

record acl_AccessControl =
  Permission :: acl_Permission
  acl_Subject :: acl_Subject
  Resources :: acl_Resources

record acl_UpdateRequest =
  acl_ResourceOwner :: string
  AccessControlList :: "acl_AccessControl list"

text \<open>
  \<open>kitNet.Addr\<close> with the results of its accessors; a resource link with its
  endpoints. \<open>link.GetTCPSecureAddr()\<close> is a parameter of the model.
\<close>

record Addr =
  GetScheme :: string
  String :: string
  URL :: string

record ResourceLink =
  Href :: string
  Endpoints :: "Addr list"

section \<open>Calls on collaborators\<close>

text \<open>
  The code talks to the device and to its other collaborators through calls whose
  answers it cannot compute. The model records every such call, in order, and takes
  the answers as parameters: an \<open>error option\<close> for a call returning \<open>error\<close>, a sum
  for a call returning a value and an error.
\<close>

datatype body =
    Body_DoxmUpdate DoxmUpdate
  | Body_ProvisionStatusUpdateRequest ProvisionStatusUpdateRequest
  | Body_CredentialUpdateRequest CredentialUpdateRequest
  | Body_acl_UpdateRequest acl_UpdateRequest

datatype coap_option = WithCredentialId int | WithCredentialSubject string

datatype call =
    Call_GetDeviceOwnership
  | Call_GetSdkDeviceID
  | Call_client_UpdateResource string body
  | Call_client_Close
  | Call_GetDevice string
  | Call_otm_Dial Addr
  | Call_otm_ProvisionOwnerCredentials string string
  | Call_tls_GetResource string "coap_option list"
  | Call_tls_UpdateResource string body
  | Call_tls_DeleteResource string "coap_option list"
  | Call_tls_Exchange string
  | Call_tls_Close
  | Call_signer_Sign string
  | Call_c_UpdateResource string string body
  | Call_ProvisionDevice string
  | Call_p_Close

text \<open>\<open>emit c p\<close>: the call \<open>c\<close> is made, then the computation \<open>p\<close> goes on.\<close>

definition emit :: "call \<Rightarrow> call list \<times> 'r \<Rightarrow> call list \<times> 'r" where
  "emit c p = (c # fst p, snd p)"

text \<open>
  \<open>andThen p q\<close>: the calls of \<open>p\<close>; when \<open>p\<close> returned an error that is the
  result, otherwise \<open>q\<close> follows.
\<close>

definition andThen :: "call list \<times> error option \<Rightarrow> call list \<times> error option \<Rightarrow> call list \<times> error option" where
  "andThen p q = (if snd p \<noteq> None then p else (fst p @ fst q, snd q))"

text \<open>\<open>prepend cs p\<close>: the calls \<open>cs\<close> have been made, then \<open>p\<close> goes on.\<close>

definition prepend :: "call list \<Rightarrow> call list \<times> 'r \<Rightarrow> call list \<times> 'r" where
  "prepend cs p = (cs @ fst p, snd p)"

section \<open>Dialing the discovery addresses (local/resource/discover.go)\<close>

definition discoveryAddressUDP4 :: "string list" where
  "discoveryAddressUDP4 = [''224.0.1.187:5683'']"

definition discoveryAddressUDP6 :: "string list" where
  "discoveryAddressUDP6 = [''[ff02::158]:5683'', ''[ff03::158]:5683'', ''[ff05::158]:5683'']"

text \<open>
  \<open>MulticastClient{Net: net}.DialWithContext(ctx, address)\<close> is a collaborator: it is
  the parameter \<open>dial net address\<close>, returning the pair \<open>(conn, err)\<close> of the Go call
  (\<open>None\<close> is a nil connection, respectively a nil error). The \<open>errors\<close> callback may
  be nil (\<open>hasErrors\<close> is false); a non-nil callback is modelled by the list of errors it
  has been called with, in order. The loop state is the pair (\<open>out\<close>, reported errors).
\<close>

fun dialLoop ::
  "(string \<Rightarrow> string \<Rightarrow> 'c option \<times> error option) \<Rightarrow> bool \<Rightarrow> string \<Rightarrow> string list \<Rightarrow>
   'c option list \<times> error list \<Rightarrow> 'c option list \<times> error list" where
  "dialLoop dial hasErrors net [] st = st"
| "dialLoop dial hasErrors net (address # rest) (out, reported) =
     (let (conn, err) = dial net address;
          reported' = (if err \<noteq> None \<and> hasErrors then reported @ [the err] else reported)
      in dialLoop dial hasErrors net rest (out @ [conn], reported'))"

definition DialDiscoveryAddresses ::
  "(string \<Rightarrow> string \<Rightarrow> 'c option \<times> error option) \<Rightarrow> bool \<Rightarrow> 'c option list \<times> error list" where
  "DialDiscoveryAddresses dial hasErrors =
     dialLoop dial hasErrors ''udp6'' discoveryAddressUDP6
       (dialLoop dial hasErrors ''udp4'' discoveryAddressUDP4 ([], []))"

text \<open>The addresses in the order in which they are dialed, each with its network.\<close>

definition dialedAddresses :: "(string \<times> string) list" where
  "dialedAddresses =
     map (Pair ''udp4'') discoveryAddressUDP4 @ map (Pair ''udp6'') discoveryAddressUDP6"

section \<open>The TLS peer verification callback of DialTcpTls (local/coapClient.go)\<close>

text \<open>
  \<open>x509.ParseCertificate\<close>, \<open>cert.Verify\<close> against the CA pool and the caller-supplied
  \<open>verifyPeerCertificate\<close> are parameters. The variable \<open>err\<close> of the loop body holds
  the result of \<open>cert.Verify\<close> when the caller's function is consulted, and that
  variable is what the third \<open>return\<close> returns.
\<close>

fun VerifyPeerCertificate ::
  "(string \<Rightarrow> error + 'cert) \<Rightarrow> ('cert \<Rightarrow> error option) \<Rightarrow> ('cert \<Rightarrow> error option) \<Rightarrow>
   string list \<Rightarrow> error option" where
  "VerifyPeerCertificate parse verify verifyPeerCertificate [] = None"
| "VerifyPeerCertificate parse verify verifyPeerCertificate (rawCert # rawCerts) =
     (case parse rawCert of
        Inl err \<Rightarrow> Some err
      | Inr cert \<Rightarrow>
          (let err = verify cert in
           if err \<noteq> None then err
           else if verifyPeerCertificate cert \<noteq> None then err
           else VerifyPeerCertificate parse verify verifyPeerCertificate rawCerts))"

text \<open>
  \<open>gocoap.DialWithTLS\<close> with \<open>InsecureSkipVerify: true\<close>: the TLS stack does no
  verification of its own and runs the configured callback on the certificates the
  peer presents; the handshake fails with the callback's error, otherwise the
  connection is the transport's result. \<open>tcp\<close> is the outcome of the TCP connect.
\<close>

definition DialWithTLS ::
  "error + 'conn \<Rightarrow> string list \<Rightarrow> (string list \<Rightarrow> error option) \<Rightarrow> error + 'conn" where
  "DialWithTLS tcp peerCerts callback =
     (case tcp of
        Inl err \<Rightarrow> Inl err
      | Inr conn \<Rightarrow> (case callback peerCerts of Some err \<Rightarrow> Inl err | None \<Rightarrow> Inr conn))"

definition TCPSecureScheme :: string where
  "TCPSecureScheme = ''coaps+tcp''"

definition UDPScheme :: string where
  "UDPScheme = ''coap''"

text \<open>\<open>coapClient\<close>: a connection and its scheme.\<close>

record 'conn coapClient =
  clientConn :: 'conn
  scheme :: string

definition NewCoapClient :: "'conn \<Rightarrow> string \<Rightarrow> 'conn coapClient" where
  "NewCoapClient conn s = \<lparr>clientConn = conn, scheme = s\<rparr>"

definition DialTcpTls ::
  "error + 'conn \<Rightarrow> string list \<Rightarrow> (string \<Rightarrow> error + 'cert) \<Rightarrow> ('cert \<Rightarrow> error option) \<Rightarrow>
   ('cert \<Rightarrow> error option) \<Rightarrow> error + 'conn coapClient" where
  "DialTcpTls tcp peerCerts parse verify verifyPeerCertificate =
     (case DialWithTLS tcp peerCerts (VerifyPeerCertificate parse verify verifyPeerCertificate) of
        Inl err \<Rightarrow> Inl err
      | Inr coapConn \<Rightarrow> Inr (NewCoapClient coapConn TCPSecureScheme))"

section \<open>Client-level OwnDevice (device cache front end)\<close>

text \<open>
  \<open>ownOptions\<close> holds the selected OTM type and the options handed on to the engine.
  \<open>OTMType_Manufacturer\<close>, the cache (\<open>GetRefDevice\<close>) and the ownership-transfer
  engine (\<open>c.deviceOwner.OwnDevice\<close>) are declared outside the sources at hand and are
  parameters. The calls made on the collaborators are recorded in order.
\<close>

record ('otm, 'opt) ownOptions =
  otmType :: 'otm
  opts :: "'opt list"

record RefDevice =
  IsSecured :: bool
  DeviceID :: string

datatype ('otm, 'opt) cacheCall =
    Call_GetRefDevice string
  | Call_Release
  | Call_deviceOwner_OwnDevice string 'otm "'opt list"

definition Client_OwnDevice ::
  "'otm \<Rightarrow> (string \<Rightarrow> error + RefDevice) \<Rightarrow>
   (string \<Rightarrow> 'otm \<Rightarrow> 'opt list \<Rightarrow> string \<times> error option) \<Rightarrow>
   string \<Rightarrow> (('otm, 'opt) ownOptions \<Rightarrow> ('otm, 'opt) ownOptions) list \<Rightarrow>
   ('otm, 'opt) cacheCall list \<times> string \<times> error option" where
  "Client_OwnDevice OTMType_Manufacturer GetRefDevice deviceOwner_OwnDevice deviceID options =
     (let cfg = foldl (\<lambda>cfg o'. o' cfg) \<lparr>otmType = OTMType_Manufacturer, opts = []\<rparr> options in
      case GetRefDevice deviceID of
        Inl err \<Rightarrow> ([Call_GetRefDevice deviceID], '''', Some err)
      | Inr d \<Rightarrow>
          (let ok = IsSecured d in
           if \<not> ok then
             ([Call_GetRefDevice deviceID, Call_Release], deviceID, None)
           else
             ([Call_GetRefDevice deviceID,
               Call_deviceOwner_OwnDevice deviceID (otmType cfg) (opts cfg),
               Call_Release],
              deviceOwner_OwnDevice deviceID (otmType cfg) (opts cfg))))"

section \<open>Finding the device (local/ownDevice.go)\<close>

text \<open>
  \<open>deviceOwnershipHandler\<close>: the handler that discovery calls back. The mutex only
  serialises the callbacks, so the handler is a state that the callbacks update one
  after the other. \<open>h_cancelled\<close> records that \<open>cancel()\<close> has been called.
\<close>

type_synonym ClientConn = nat

record deviceOwnershipClient =
  coapClient :: "ClientConn coapClient"
  ownership :: Doxm

definition GetOwnership :: "deviceOwnershipClient \<Rightarrow> Doxm" where
  "GetOwnership c = ownership c"

record deviceOwnershipHandler =
  h_deviceID :: string
  h_cancelled :: bool
  h_client :: "deviceOwnershipClient option"
  h_err :: "error option"

definition newDeviceOwnershipHandler :: "string \<Rightarrow> deviceOwnershipHandler" where
  "newDeviceOwnershipHandler deviceID =
     \<lparr>h_deviceID = deviceID, h_cancelled = False, h_client = None, h_err = None\<rparr>"

definition Handle :: "deviceOwnershipHandler \<Rightarrow> ClientConn \<Rightarrow> Doxm \<Rightarrow> deviceOwnershipHandler" where
  "Handle h conn own =
     (if DeviceId own = h_deviceID h \<and> h_client h = None
      then h\<lparr>h_client := Some \<lparr>coapClient = NewCoapClient conn UDPScheme, ownership = own\<rparr>,
             h_cancelled := True\<rparr>
      else h)"

definition Error :: "deviceOwnershipHandler \<Rightarrow> error \<Rightarrow> deviceOwnershipHandler" where
  "Error h err = (if h_err h = None then h\<lparr>h_err := Some err\<rparr> else h)"

definition Err :: "deviceOwnershipHandler \<Rightarrow> error option" where
  "Err h = h_err h"

definition Client :: "deviceOwnershipHandler \<Rightarrow> deviceOwnershipClient option" where
  "Client h = h_client h"

text \<open>
  \<open>c.GetDeviceOwnership(ctxOwn, status, h)\<close> is not among the sources. What
  \<open>ownDeviceFindClient\<close> sees of it is the sequence of callbacks it makes on the
  handler and the error it returns; both are parameters.
\<close>

datatype callback = On_Handle ClientConn Doxm | On_Error error

fun deliver :: "deviceOwnershipHandler \<Rightarrow> callback \<Rightarrow> deviceOwnershipHandler" where
  "deliver h (On_Handle conn own) = Handle h conn own"
| "deliver h (On_Error err) = Error h err"

definition ownDeviceFindClient ::
  "string \<Rightarrow> callback list \<times> error option \<Rightarrow> error + deviceOwnershipClient" where
  "ownDeviceFindClient deviceID GetDeviceOwnership =
     (let h = foldl deliver (newDeviceOwnershipHandler deviceID) (fst GetDeviceOwnership);
          err = snd GetDeviceOwnership;
          client = Client h
      in case client of
           Some cl \<Rightarrow> Inr cl
         | None \<Rightarrow>
             (case err of
                Some e \<Rightarrow> Inl e
              | None \<Rightarrow>
                  (case Err h of
                     Some e \<Rightarrow> Inl e
                   | None \<Rightarrow> Inl (Errorf ''device not found'' []))))"

section \<open>The manufacturer-certificate OTM client (local/ownDevice.go)\<close>









section \<open>The implementation probe (local/coapClient.go)\<close>

text \<open>
  A response as \<open>IsIotivity\<close> reads it: its code, its content-format option (absent, a
  media type, or a value of another type, for which the type assertion yields the zero
  media type) and its dump. The numbers are those of CoAP: 2.05 Content is 69,
  application/cbor is 60 and application/vnd.ocf+cbor is 10000.
\<close>

type_synonym MediaType = nat

datatype optionValue = MediaTypeValue MediaType | OtherValue

record Message =
  Code :: nat
  ContentFormat :: "optionValue option"
  Dump :: string

definition Content :: nat where
  "Content = 69"

definition AppCBOR :: MediaType where
  "AppCBOR = 60"

definition AppOcfCbor :: MediaType where
  "AppOcfCbor = 10000"

record probe =
  NewGetRequest_reply :: "error option"
  Exchange_reply :: "error + Message"

definition IsIotivity :: "probe \<Rightarrow> call list \<times> (error + bool)" where
  "IsIotivity p =
     (let href = ''/oic/res''; errMsg = ''cannot determine whether it is iotivity:'' in
      case NewGetRequest_reply p of
        Some err \<Rightarrow> ([], Inl (Errorf ''could create get request %s: %v'' [AStr href, AErr (Some err)]))
      | None \<Rightarrow>
          emit (Call_tls_Exchange ''/oic/res'')
            (case Exchange_reply p of
               Inl err \<Rightarrow> ([], Inl (Errorf ''could not query %s: %v'' [AStr href, AErr (Some err)]))
             | Inr resp \<Rightarrow>
                 (if Code resp \<noteq> Content then
                    ([], Inl (Errorf (errMsg @ '' request failed: %s'') [AStr (Dump resp)]))
                  else
                    (case ContentFormat resp of
                       None \<Rightarrow> ([], Inl (Errorf (errMsg @ '' content format not found'') []))
                     | Some cf \<Rightarrow>
                         (let mt = (case cf of MediaTypeValue m \<Rightarrow> m | OtherValue \<Rightarrow> 0) in
                          if mt = AppCBOR then ([], Inr True)
                          else if mt = AppOcfCbor then ([], Inr False)
                          else ([], Inl (Errorf (errMsg @ '' unknown content format %v'') [ANat mt])))))))"

section \<open>OwnDevice (local/ownDevice.go)\<close>

text \<open>
  \<open>OTMClient\<close>, the interface of an ownership transfer method. \<open>Dial\<close> returns a
  session or an error; only the error is kept. A call of an interface method is one
  collaborator call of \<open>OwnDevice\<close>.
\<close>

record OTMClient =
  otm_Type :: OwnerTransferMethod
  otm_Dial :: "Addr \<Rightarrow> error option"
  otm_ProvisionOwnerCredentials :: "string \<Rightarrow> string \<Rightarrow> error option"

text \<open>
  The answers of the collaborators of one \<open>OwnDevice\<close> call, one per call site (no
  call site of \<open>OwnDevice\<close> or \<open>iotivityHack\<close> is in a loop). \<open>GetDevice_reply\<close> holds
  the resource links of the device client that \<open>c.GetDevice\<close> returns.
\<close>

record env =
  GetDeviceOwnership_reply :: "callback list \<times> error option"
  GetSdkDeviceID_reply :: "error + string"
  selectOTM_reply :: "error option"
  GetDevice_reply :: "error + ResourceLink list"
  GetTCPSecureAddr :: "ResourceLink \<Rightarrow> error + Addr"
  pstat_reply :: "error + ProvisionStatusResponse"
  updateProvisionState_reply :: "error option"
  probe_reply :: probe
  hack_setDeviceOwner_reply :: "error option"
  hack_setCredential_reply :: "error option"
  hack_deleteCredential_reply :: "error option"
  setDeviceOwner_reply :: "error option"
  verifyOwner_reply :: "error + Doxm"
  setDeviceOwned_reply :: "error option"
  setOwnerProvisionState_reply :: "error option"
  setOwnerAcl_reply :: "error option"
  ProvisionDevice_reply :: "error option"
  p_Close_reply :: "error option"

definition hackId :: string where
  "hackId = ''52a201a7-824c-4fc6-9092-d2b6a3414a5b''"

definition iotivityHackCredential :: "string \<Rightarrow> CredentialUpdateRequest" where
  "iotivityHackCredential sdkID =
     \<lparr>cur_ResourceOwner = sdkID,
      Credentials =
        [Credential_zero
           \<lparr>Subject := hackId,
            Type := CredentialType_SYMMETRIC_PAIR_WISE,
            PrivateData := \<lparr>priv_Data = ''IOTIVITY HACK'', priv_Encoding = CredentialPrivateDataEncoding_RAW\<rparr>\<rparr>]\<rparr>"

definition iotivityHack :: "env \<Rightarrow> string \<Rightarrow> call list \<times> error option" where
  "iotivityHack e sdkID =
     emit (Call_tls_UpdateResource ''/oic/sec/doxm'' (Body_DoxmUpdate (DoxmUpdate_zero\<lparr>upd_DeviceOwner := hackId\<rparr>)))
     (case hack_setDeviceOwner_reply e of
        Some err \<Rightarrow> ([], Some (Errorf ''cannot set device hackid as owner %v'' [AErr (Some err)]))
      | None \<Rightarrow>
     emit (Call_tls_UpdateResource ''/oic/sec/cred'' (Body_CredentialUpdateRequest (iotivityHackCredential sdkID)))
     (case hack_setCredential_reply e of
        Some err \<Rightarrow> ([], Some (Errorf ''cannot set iotivity-hack credential: %v'' [AErr (Some err)]))
      | None \<Rightarrow>
     emit (Call_tls_DeleteResource ''/oic/sec/cred'' [WithCredentialSubject hackId])
     (case hack_deleteCredential_reply e of
        Some err \<Rightarrow> ([], Some (Errorf ''cannot delete iotivity-hack credential: %v'' [AErr (Some err)]))
      | None \<Rightarrow> ([], None))))"

fun firstTCPSecureAddr :: "(ResourceLink \<Rightarrow> error + Addr) \<Rightarrow> ResourceLink list \<Rightarrow> Addr option" where
  "firstTCPSecureAddr get [] = None"
| "firstTCPSecureAddr get (link # links) =
     (case get link of Inr tlsAddr \<Rightarrow> Some tlsAddr | Inl err \<Rightarrow> firstTCPSecureAddr get links)"

definition errMsg :: string where
  "errMsg = ''cannot own device %v: %v''"

definition setOwnerAcl :: "string \<Rightarrow> acl_UpdateRequest" where
  "setOwnerAcl sdkID =
     \<lparr>acl_ResourceOwner = sdkID,
      AccessControlList =
        [\<lparr>Permission = acl_AllPermissions, acl_Subject = Subject_Device sdkID,
          Resources = acl_AllResources\<rparr>]\<rparr>"

text \<open>Lines 458 to 499: after the provisioning session has been closed.\<close>

definition OwnDevice_acl :: "env \<Rightarrow> string \<Rightarrow> string \<Rightarrow> call list \<times> error option" where
  "OwnDevice_acl e sdkID deviceID =
     emit (Call_c_UpdateResource deviceID ''/oic/sec/pstat''
             (Body_ProvisionStatusUpdateRequest (ProvisionStatusUpdateRequest_zero\<lparr>psu_ResourceOwner := sdkID\<rparr>)))
     (case setOwnerProvisionState_reply e of
        Some err \<Rightarrow> ([], Some (Errorf errMsg [AStr deviceID, AErr (Some (Errorf
            ''cannot update provision state resource owner to setup device owner ACLs: %v'' [AErr (Some err)]))]))
      | None \<Rightarrow>
     emit (Call_c_UpdateResource deviceID ''/oic/sec/acl2'' (Body_acl_UpdateRequest (setOwnerAcl sdkID)))
     (case setOwnerAcl_reply e of
        Some err \<Rightarrow> ([], Some (Errorf errMsg [AStr deviceID, AErr (Some (Errorf
            ''cannot update acl resource owner: %v'' [AErr (Some err)]))]))
      | None \<Rightarrow>
     emit (Call_ProvisionDevice deviceID)
     (case ProvisionDevice_reply e of
        Some err \<Rightarrow> ([], Some (Errorf errMsg [AStr deviceID, AErr (Some err)]))
      | None \<Rightarrow>
     emit Call_p_Close
     (case p_Close_reply e of
        Some err \<Rightarrow> ([], Some (Errorf errMsg [AStr deviceID, AErr (Some err)]))
      | None \<Rightarrow> ([], None)))))"

text \<open>Lines 415 to 456: the owner is set, verified and the device marked owned.\<close>

definition OwnDevice_owner :: "env \<Rightarrow> string \<Rightarrow> string \<Rightarrow> call list \<times> error option" where
  "OwnDevice_owner e sdkID deviceID =
     emit (Call_tls_UpdateResource ''/oic/sec/doxm'' (Body_DoxmUpdate (DoxmUpdate_zero\<lparr>upd_DeviceOwner := sdkID\<rparr>)))
     (case setDeviceOwner_reply e of
        Some err \<Rightarrow> ([], Some (Errorf errMsg [AStr deviceID, AErr (Some (Errorf
            ''cannot set device owner %v'' [AErr (Some err)]))]))
      | None \<Rightarrow>
     emit (Call_tls_GetResource ''/oic/sec/doxm'' [])
     (case verifyOwner_reply e of
        Inl err \<Rightarrow> ([], Some (Errorf errMsg [AStr deviceID, AErr (Some (Errorf
            ''cannot verify owner: %v'' [AErr (Some err)]))]))
      | Inr verifyOwner \<Rightarrow>
     if DeviceOwner verifyOwner \<noteq> sdkID then
       ([], Some (Errorf errMsg [AStr deviceID, AErr None]))
     else
     emit (Call_tls_UpdateResource ''/oic/sec/doxm''
             (Body_DoxmUpdate (DoxmUpdate_zero\<lparr>upd_ResourceOwner := sdkID, upd_DeviceId := deviceID, upd_Owned := True\<rparr>)))
     (case setDeviceOwned_reply e of
        Some err \<Rightarrow> ([], Some (Errorf errMsg [AStr deviceID, AErr (Some (Errorf
            ''cannot set device owned %v'' [AErr (Some err)]))]))
      | None \<Rightarrow>
     emit Call_tls_Close (OwnDevice_acl e sdkID deviceID))))"

text \<open>Lines 366 to 413: the calls over the session that \<open>otmClient.Dial\<close> returned.\<close>

definition OwnDevice_tls :: "env \<Rightarrow> OTMClient \<Rightarrow> string \<Rightarrow> string \<Rightarrow> call list \<times> error option" where
  "OwnDevice_tls e otmClient sdkID deviceID =
     emit (Call_tls_GetResource ''/oic/sec/pstat'' [])
     (case pstat_reply e of
        Inl err \<Rightarrow> ([], Some (Errorf errMsg [AStr deviceID, AErr (Some (Errorf
            ''cannot get provision state %v'' [AErr (Some err)]))]))
      | Inr provisionState \<Rightarrow>
     if Pending (DeviceOnboardingState provisionState) then
       ([], Some (Errorf errMsg [AStr deviceID, AErr (Some (Errorf
            ''device pending for operation state %v''
            [AState (CurrentOrPendingOperationalState (DeviceOnboardingState provisionState))]))]))
     else if CurrentOrPendingOperationalState (DeviceOnboardingState provisionState) \<noteq> OperationalState_RFOTM then
       ([], Some (Errorf errMsg [AStr deviceID, AErr (Some (Errorf
            ''device operation state %v is not %v''
            [AState (CurrentOrPendingOperationalState (DeviceOnboardingState provisionState)),
             AState OperationalState_RFOTM]))]))
     else if OperationalMode_CLIENT_DIRECTED \<notin> set (SupportedOperationalModes provisionState) then
       ([], Some (Errorf errMsg [AStr deviceID, AErr (Some (Errorf
            ''device supports %v, but only %v is supported''
            [AModes (SupportedOperationalModes provisionState), AMode OperationalMode_CLIENT_DIRECTED]))]))
     else
     emit (Call_tls_UpdateResource ''/oic/sec/pstat''
             (Body_ProvisionStatusUpdateRequest
                (ProvisionStatusUpdateRequest_zero\<lparr>psu_CurrentOperationalMode := Some OperationalMode_CLIENT_DIRECTED\<rparr>)))
     (case updateProvisionState_reply e of
        Some err \<Rightarrow> ([], Some (Errorf errMsg [AStr deviceID, AErr (Some (Errorf
            ''cannot update provision state %v'' [AErr (Some err)]))]))
      | None \<Rightarrow>
     emit (Call_otm_ProvisionOwnerCredentials sdkID deviceID)
     (case otm_ProvisionOwnerCredentials otmClient sdkID deviceID of
        Some err \<Rightarrow> ([], Some (Errorf errMsg [AStr deviceID, AErr (Some (Errorf
            ''cannot provision owner %v'' [AErr (Some err)]))]))
      | None \<Rightarrow>
     prepend (fst (IsIotivity (probe_reply e)))
     (case snd (IsIotivity (probe_reply e)) of
        Inl err \<Rightarrow> ([], Some (Errorf errMsg [AStr deviceID, AErr (Some err)]))
      | Inr isIotivity \<Rightarrow>
     andThen
       (if isIotivity then
          prepend (fst (iotivityHack e sdkID))
            (case snd (iotivityHack e sdkID) of
               Some err \<Rightarrow> ([], Some (Errorf errMsg [AStr deviceID, AErr (Some err)]))
             | None \<Rightarrow> ([], None))
        else ([], None))
       (OwnDevice_owner e sdkID deviceID)))))"

text \<open>
  \<open>OwnDevice\<close>: lines 302 to 364, then the stages above. \<open>defer client.Close()\<close> runs
  on every return after the client has been found.
\<close>

definition OwnDevice_found :: "env \<Rightarrow> OTMClient \<Rightarrow> string \<Rightarrow> deviceOwnershipClient \<Rightarrow> call list \<times> error option" where
  "OwnDevice_found e otmClient deviceID client =
     (let own = GetOwnership client;
          supportOtm = (otm_Type otmClient \<in> set (SupportedOwnerTransferMethods own))
      in
      if \<not> supportOtm then
        ([], Some (Errorf errMsg [AStr deviceID, ASprintf
            ''ownership transfer method '%v' is unsupported, supported are: %v''
            [AOtm (otm_Type otmClient), AOtms (SupportedOwnerTransferMethods own)]]))
      else
      emit Call_GetSdkDeviceID
      (case GetSdkDeviceID_reply e of
         Inl err \<Rightarrow> ([], Some (Errorf errMsg [AStr deviceID, AErr (Some (Errorf
             ''cannot set device owner %v'' [AErr (Some err)]))]))
       | Inr sdkID \<Rightarrow>
      emit (Call_client_UpdateResource ''/oic/sec/doxm''
              (Body_DoxmUpdate (DoxmUpdate_zero\<lparr>upd_SelectOwnerTransferMethod := otm_Type otmClient\<rparr>)))
      (case selectOTM_reply e of
         Some err \<Rightarrow>
           (if Owned own then
              (if DeviceOwner own = sdkID then ([], None)
               else ([], Some (Errorf errMsg [AStr deviceID, AErr (Some (Errorf
                   ''device is already owned by %v'' [AStr (DeviceOwner own)]))])))
            else ([], Some (Errorf errMsg [AStr deviceID, AErr (Some (Errorf
                   ''cannot select OTM: %v'' [AErr (Some err)]))])))
       | None \<Rightarrow>
      emit (Call_GetDevice deviceID)
      (case GetDevice_reply e of
         Inl err \<Rightarrow> ([], Some (Errorf errMsg [AStr deviceID, AErr (Some err)]))
       | Inr links \<Rightarrow>
      if length links = 0 then
        ([], Some (Errorf errMsg [AStr deviceID, AStr ''device links are empty'']))
      else
      (case firstTCPSecureAddr (GetTCPSecureAddr e) links of
         None \<Rightarrow> ([], Some (Errorf errMsg [AStr deviceID, AErr (Some (Errorf
             ''cannot get tcp secure address: not found'' []))]))
       | Some tlsAddr \<Rightarrow>
      emit (Call_otm_Dial tlsAddr)
      (case otm_Dial otmClient tlsAddr of
         Some err \<Rightarrow> ([], Some (Errorf errMsg [AStr deviceID, AErr (Some (Errorf
             ''cannot create TLS connection: %v'' [AErr (Some err)]))]))
       | None \<Rightarrow> OwnDevice_tls e otmClient sdkID deviceID))))))"

definition OwnDevice :: "env \<Rightarrow> OTMClient \<Rightarrow> string \<Rightarrow> call list \<times> error option" where
  "OwnDevice e otmClient deviceID =
     emit Call_GetDeviceOwnership
     (case ownDeviceFindClient deviceID (GetDeviceOwnership_reply e) of
        Inl err \<Rightarrow> ([], Some (Errorf errMsg [AStr deviceID, AErr (Some err)]))
      | Inr client \<Rightarrow>
          (fst (OwnDevice_found e otmClient deviceID client) @ [Call_client_Close],
           snd (OwnDevice_found e otmClient deviceID client)))"

section \<open>Discover (local/resource/discover.go)\<close>

text \<open>
  \<open>Discover\<close> starts one goroutine per connection and then waits in a \<open>select\<close> for
  an error on the channel \<open>errors\<close> or for the end of its context; \<open>cancel\<close> and
  \<open>wg.Wait\<close> are deferred, so that on either outcome the context of the goroutines
  is cancelled and \<open>Discover\<close> returns once all of them have ended. The goroutines
  and the \<open>select\<close> run interleaved: the model is a state and the steps that the code
  can take on it, and a run is a list of steps chosen by the scheduler. A step that
  the code cannot take in a state leaves the state as it is.

  Of a connection the model keeps the results of \<open>NewGetRequest\<close> and of
  \<open>PublishMsgWithContext\<close>.
\<close>

record endpoint =
  conn_NewGetRequest :: "error option"
  conn_PublishMsgWithContext :: "error option"

text \<open>
  Where a goroutine of \<open>runDiscovery\<close> stands: started; blocked in the send
  \<open>errors <- err\<close> after \<open>NewGetRequest\<close> failed; in the \<open>select\<close> that offers the
  error of \<open>PublishMsgWithContext\<close> or takes \<open>ctx.Done()\<close>; waiting for \<open>ctx.Done()\<close>
  with its query published; ended by \<open>ctx.Done()\<close> with its query cancelled
  (\<open>waiter.Cancel\<close>); ended without a published query.
\<close>

datatype goroutine =
    G_started
  | G_sending error
  | G_offering error
  | G_waiting
  | G_cancelled
  | G_ended

record discovery =
  ctx_done :: bool
  selected :: "error option option"
  returned :: bool
  goroutines :: "goroutine list"
  handled :: "nat list"

text \<open>
  \<open>selected\<close> is the value that the \<open>select\<close> of \<open>Discover\<close> has chosen to return, if
  it has chosen; \<open>returned\<close> holds once the deferred calls are through. \<open>handled\<close>
  lists the connections whose responses have been given to the handler.
\<close>

datatype sched =
    Run nat
  | Receive nat
  | Done
  | Return
  | Respond nat
  | CancelCaller

definition Discover_init :: "endpoint list \<Rightarrow> discovery" where
  "Discover_init conn =
     \<lparr>ctx_done = False, selected = None, returned = False,
      goroutines = replicate (length conn) G_started, handled = []\<rparr>"

text \<open>The next step of the goroutine of one connection; \<open>done\<close> tells whether the context is cancelled.\<close>

fun runDiscovery :: "endpoint \<Rightarrow> bool \<Rightarrow> goroutine \<Rightarrow> goroutine" where
  "runDiscovery c done G_started =
     (case conn_NewGetRequest c of
        Some err \<Rightarrow> G_sending (Errorf ''device discovery request creation failed: %v'' [AErr (Some err)])
      | None \<Rightarrow>
          (case conn_PublishMsgWithContext c of
             Some err \<Rightarrow> G_offering (Errorf ''device discovery multicast request failed: %v'' [AErr (Some err)])
           | None \<Rightarrow> G_waiting))"
| "runDiscovery c done (G_sending err) = G_sending err"
| "runDiscovery c done (G_offering err) = (if done then G_ended else G_offering err)"
| "runDiscovery c done G_waiting = (if done then G_cancelled else G_waiting)"
| "runDiscovery c done G_cancelled = G_cancelled"
| "runDiscovery c done G_ended = G_ended"

definition ended :: "goroutine \<Rightarrow> bool" where
  "ended g = (g = G_cancelled \<or> g = G_ended)"

text \<open>
  The steps: a goroutine moves on; the \<open>select\<close> of \<open>Discover\<close> receives the error
  that a goroutine sends or offers (the sender goes on and returns; the deferred
  \<open>cancel\<close> ends the context); the \<open>select\<close> takes \<open>ctx.Done()\<close>; \<open>wg.Wait\<close> is
  through and \<open>Discover\<close> returns; a response to a published query that has not been
  cancelled reaches the handler; the caller's context ends (a timeout, or the
  \<open>cancel\<close> that the caller's handler calls).
\<close>

fun step :: "endpoint list \<Rightarrow> discovery \<Rightarrow> sched \<Rightarrow> discovery" where
  "step conn s (Run i) =
     (if i < length (goroutines s) \<and> i < length conn
      then s\<lparr>goroutines := (goroutines s)[i := runDiscovery (conn ! i) (ctx_done s) (goroutines s ! i)]\<rparr>
      else s)"
| "step conn s (Receive i) =
     (if selected s = None \<and> i < length (goroutines s) then
        (case goroutines s ! i of
           G_sending err \<Rightarrow>
             s\<lparr>selected := Some (Some err), ctx_done := True, goroutines := (goroutines s)[i := G_ended]\<rparr>
         | G_offering err \<Rightarrow>
             s\<lparr>selected := Some (Some err), ctx_done := True, goroutines := (goroutines s)[i := G_ended]\<rparr>
         | _ \<Rightarrow> s)
      else s)"
| "step conn s Done =
     (if selected s = None \<and> ctx_done s then s\<lparr>selected := Some None\<rparr> else s)"
| "step conn s Return =
     (if selected s \<noteq> None \<and> list_all ended (goroutines s) then s\<lparr>returned := True\<rparr> else s)"
| "step conn s (Respond i) =
     (if i < length (goroutines s) \<and> goroutines s ! i = G_waiting
      then s\<lparr>handled := handled s @ [i]\<rparr>
      else s)"
| "step conn s CancelCaller = s\<lparr>ctx_done := True\<rparr>"

definition Discover :: "endpoint list \<Rightarrow> sched list \<Rightarrow> discovery" where
  "Discover conn run = foldl (step conn) (Discover_init conn) run"

section \<open>A sample device and a sample OTM client\<close>

text \<open>
  An unowned device \<open>dev-1\<close> that supports the method 2, answers every call without
  error, is ready for ownership transfer and answers the probe with the OCF content
  format; an OTM client of method 2 whose calls succeed; the owner is \<open>sdk-1\<close>.
\<close>

definition sample_doxm :: Doxm where
  "sample_doxm =
     \<lparr>Owned = False, DeviceOwner = '''', DeviceId = ''dev-1'',
      SupportedOwnerTransferMethods = [0, 2], SelectedOwnerTransferMethod = 0\<rparr>"

definition sample_addr :: Addr where
  "sample_addr = \<lparr>GetScheme = ''coaps+tcp'', String = ''[fe80::1]:5684'', URL = ''coaps+tcp://[fe80::1]:5684''\<rparr>"

definition sample_pstat :: ProvisionStatusResponse where
  "sample_pstat =
     \<lparr>DeviceOnboardingState = \<lparr>Pending = False, CurrentOrPendingOperationalState = OperationalState_RFOTM\<rparr>,
      SupportedOperationalModes = [OperationalMode_CLIENT_DIRECTED]\<rparr>"

definition sample_probe :: probe where
  "sample_probe =
     \<lparr>NewGetRequest_reply = None,
      Exchange_reply = Inr \<lparr>Code = 69, ContentFormat = Some (MediaTypeValue 10000), Dump = ''2.05''\<rparr>\<rparr>"

definition sample_env :: env where
  "sample_env =
     \<lparr>GetDeviceOwnership_reply = ([On_Handle 1 sample_doxm], None),
      GetSdkDeviceID_reply = Inr ''sdk-1'',
      selectOTM_reply = None,
      GetDevice_reply = Inr [\<lparr>Href = ''/oic/d'', Endpoints = [sample_addr]\<rparr>],
      GetTCPSecureAddr = (\<lambda>link. case Endpoints link of [] \<Rightarrow> Inl (Ext ''no endpoint'') | a # as \<Rightarrow> Inr a),
      pstat_reply = Inr sample_pstat,
      updateProvisionState_reply = None,
      probe_reply = sample_probe,
      hack_setDeviceOwner_reply = None,
      hack_setCredential_reply = None,
      hack_deleteCredential_reply = None,
      setDeviceOwner_reply = None,
      verifyOwner_reply = Inr (sample_doxm\<lparr>DeviceOwner := ''sdk-1''\<rparr>),
      setDeviceOwned_reply = None,
      setOwnerProvisionState_reply = None,
      setOwnerAcl_reply = None,
      ProvisionDevice_reply = None,
      p_Close_reply = None\<rparr>"

definition sample_otm :: OTMClient where
  "sample_otm =
     \<lparr>otm_Type = 2, otm_Dial = (\<lambda>addr. None), otm_ProvisionOwnerCredentials = (\<lambda>ownerID deviceID. None)\<rparr>"

text \<open>The same device reporting a pending operation; owned by \<open>sdk-1\<close>; owned by another owner.\<close>

definition pending_pstat :: ProvisionStatusResponse where
  "pending_pstat =
     sample_pstat\<lparr>DeviceOnboardingState :=
       \<lparr>Pending = True, CurrentOrPendingOperationalState = OperationalState_RFOTM\<rparr>\<rparr>"

definition pending_env :: env where
  "pending_env = sample_env\<lparr>pstat_reply := Inr pending_pstat\<rparr>"

definition owned_env :: "string \<Rightarrow> env" where
  "owned_env owner =
     sample_env\<lparr>GetDeviceOwnership_reply :=
       ([On_Handle 1 (sample_doxm\<lparr>Owned := True, DeviceOwner := owner\<rparr>)], None)\<rparr>"

text \<open>The sample device answering the read-back of the owner with its old, empty owner.\<close>

definition mismatch_env :: env where
  "mismatch_env = sample_env\<lparr>verifyOwner_reply := Inr sample_doxm\<rparr>"

text \<open>The sample device answering the probe with the generic CBOR content format.\<close>

definition legacy_env :: env where
  "legacy_env =
     sample_env\<lparr>probe_reply :=
       sample_probe\<lparr>Exchange_reply := Inr \<lparr>Code = 69, ContentFormat = Some (MediaTypeValue 60), Dump = ''2.05''\<rparr>\<rparr>\<rparr>"



section \<open>Notions used in the properties\<close>

text \<open>The calls that change the device over the provisioning session.\<close>

fun writesOverSession :: "call \<Rightarrow> bool" where
  "writesOverSession (Call_tls_UpdateResource href b) = True"
| "writesOverSession (Call_tls_DeleteResource href os) = True"
| "writesOverSession (Call_otm_ProvisionOwnerCredentials ownerID deviceID) = True"
| "writesOverSession c = False"






text \<open>The error that the goroutine of a connection sends to \<open>Discover\<close>, if any.\<close>

definition transportError :: "endpoint \<Rightarrow> error option" where
  "transportError c =
     (case conn_NewGetRequest c of
        Some err \<Rightarrow> Some (Errorf ''device discovery request creation failed: %v'' [AErr (Some err)])
      | None \<Rightarrow>
          (case conn_PublishMsgWithContext c of
             Some err \<Rightarrow> Some (Errorf ''device discovery multicast request failed: %v'' [AErr (Some err)])
           | None \<Rightarrow> None))"

text \<open>
  What holds of \<open>Discover\<close> in every state of every run: the goroutines are those of
  the connections and the error a goroutine sends is the transport error of its
  connection; an error that the \<open>select\<close> has received is such an error; once the
  \<open>select\<close> has chosen, the context is cancelled; once \<open>Discover\<close> has returned,
  every goroutine has ended.
\<close>

definition carries :: "endpoint \<Rightarrow> goroutine \<Rightarrow> bool" where
  "carries c g =
     (case g of
        G_sending err \<Rightarrow> transportError c = Some err
      | G_offering err \<Rightarrow> transportError c = Some err
      | _ \<Rightarrow> True)"

definition Discover_invariant :: "endpoint list \<Rightarrow> discovery \<Rightarrow> bool" where
  "Discover_invariant conn s =
     (list_all2 carries conn (goroutines s)
      \<and> (case selected s of
            Some (Some err) \<Rightarrow> list_ex (\<lambda>c. transportError c = Some err) conn \<and> ctx_done s
          | Some None \<Rightarrow> ctx_done s
          | None \<Rightarrow> True)
      \<and> (if returned s then selected s \<noteq> None \<and> list_all ended (goroutines s) else True))"


section \<open>Properties\<close>

lemma dialLoop_eq:
  "dialLoop dial hasErrors net addrs (out, reported) =
     (out @ map (\<lambda>a. fst (dial net a)) addrs,
      reported @ (if hasErrors then map the (filter (\<lambda>e. e \<noteq> None) (map (\<lambda>a. snd (dial net a)) addrs)) else []))"
  by (induction addrs arbitrary: out reported) (auto simp: Let_def split: prod.splits)

text \<open>
  C10: DialDiscoveryAddresses returns exactly one entry per configured discovery
  address, in order (one UDP4 and three UDP6 addresses, four in all); the entry is
  whatever connection the dial returned, also when the dial failed (a nil connection
  then stays in the slice); failures go to the errors callback only (when one is
  given) and every address is dialed regardless of earlier failures.
\<close>

theorem DialDiscoveryAddresses_entries:
  "length (fst (DialDiscoveryAddresses dial hasErrors)) = 4
   \<and> length dialedAddresses = 4
   \<and> fst (DialDiscoveryAddresses dial hasErrors) = map (\<lambda>(net, a). fst (dial net a)) dialedAddresses
   \<and> snd (DialDiscoveryAddresses dial True) =
       map the (filter (\<lambda>e. e \<noteq> None) (map (\<lambda>(net, a). snd (dial net a)) dialedAddresses))
   \<and> snd (DialDiscoveryAddresses dial False) = []"
  by (simp add: DialDiscoveryAddresses_def dialLoop_eq dialedAddresses_def
      discoveryAddressUDP4_def discoveryAddressUDP6_def)

theorem DialDiscoveryAddresses_entries_witness:
  "DialDiscoveryAddresses
     (\<lambda>net a. if a = ''[ff03::158]:5683'' then (None, Some (Ext ''no route'')) else (Some (net, a), None))
     True
   = ([Some (''udp4'', ''224.0.1.187:5683''), Some (''udp6'', ''[ff02::158]:5683''), None,
       Some (''udp6'', ''[ff05::158]:5683'')],
      [Ext ''no route''])"
  using DialDiscoveryAddresses_entries
    [of "\<lambda>net a. if a = ''[ff03::158]:5683'' then (None, Some (Ext ''no route'')) else (Some (net, a), None)" True]
  by (simp add: DialDiscoveryAddresses_def discoveryAddressUDP4_def discoveryAddressUDP6_def)

lemma VerifyPeerCertificate_all_valid:
  "\<forall>raw \<in> set rawCerts. \<exists>cert. parse raw = Inr cert \<and> verify cert = None \<Longrightarrow>
   VerifyPeerCertificate parse verify verifyPeerCertificate rawCerts = None"
  by (induction rawCerts) (auto simp: Let_def)

text \<open>
  C2: when every certificate of the peer's chain parses and verifies against the CA
  pool, the VerifyPeerCertificate callback of DialTcpTls returns nil whatever the
  caller-supplied verifyPeerCertificate answers: on a rejection the callback returns
  the enclosing \<open>err\<close>, which is nil there, so the rejection error is dropped, and
  the dial over an established transport yields the client.
\<close>

theorem DialTcpTls_discards_rejection:
  assumes "\<forall>raw \<in> set rawCerts. \<exists>cert. parse raw = Inr cert \<and> verify cert = None"
  shows "VerifyPeerCertificate parse verify verifyPeerCertificate rawCerts = None
     \<and> DialTcpTls (Inr conn) rawCerts parse verify verifyPeerCertificate
         = Inr (NewCoapClient conn TCPSecureScheme)"
  using VerifyPeerCertificate_all_valid [OF assms, of verifyPeerCertificate]
  by (simp add: DialTcpTls_def DialWithTLS_def)

theorem DialTcpTls_discards_rejection_witness:
  "(\<forall>raw \<in> set [''leaf'', ''intermediate''].
       \<exists>cert. (Inr :: string \<Rightarrow> error + string) raw = Inr cert \<and> (\<lambda>c. None :: error option) cert = None) = True
   \<and> (\<lambda>c :: string. Some (Ext ''identity rejected'')) ''leaf'' \<noteq> None
   \<and> VerifyPeerCertificate Inr (\<lambda>c. None) (\<lambda>c :: string. Some (Ext ''identity rejected''))
        [''leaf'', ''intermediate''] = None
   \<and> DialTcpTls (Inr (7 :: nat)) [''leaf'', ''intermediate''] Inr (\<lambda>c. None)
        (\<lambda>c :: string. Some (Ext ''identity rejected''))
      = Inr \<lparr>clientConn = 7, scheme = ''coaps+tcp''\<rparr>"
proof -
  have h: "\<forall>raw \<in> set [''leaf'', ''intermediate''].
      \<exists>cert. (Inr :: string \<Rightarrow> error + string) raw = Inr cert \<and> (\<lambda>c. None :: error option) cert = None"
    by simp
  show ?thesis
    using h DialTcpTls_discards_rejection
      [OF h, of "\<lambda>c :: string. Some (Ext ''identity rejected'')" "7 :: nat"]
    by (simp add: NewCoapClient_def TCPSecureScheme_def)
qed

text \<open>
  C9: for a device handle that reports it is not secured, the client-level OwnDevice
  returns the device identifier it was called with and a nil error, the
  ownership-transfer engine is not invoked, and the reference acquired from the cache
  is released (the deferred Release is the only call after GetRefDevice).
\<close>

theorem Client_OwnDevice_insecure:
  assumes "GetRefDevice deviceID = Inr d" and "\<not> IsSecured d"
  shows "Client_OwnDevice OTMType_Manufacturer GetRefDevice deviceOwner_OwnDevice deviceID options
         = ([Call_GetRefDevice deviceID, Call_Release], deviceID, None)"
  using assms by (simp add: Client_OwnDevice_def Let_def)

theorem Client_OwnDevice_insecure_witness:
  "\<not> IsSecured \<lparr>IsSecured = False, DeviceID = ''dev-1''\<rparr>
   \<and> Client_OwnDevice (0 :: nat) (\<lambda>i. Inr \<lparr>IsSecured = False, DeviceID = i\<rparr>)
        (\<lambda>i t (os :: unit list). (''other'', Some (Ext ''engine called''))) ''dev-1'' []
      = ([Call_GetRefDevice ''dev-1'', Call_Release], ''dev-1'', None)"
  using Client_OwnDevice_insecure
    [of "\<lambda>i. Inr \<lparr>IsSecured = False, DeviceID = i\<rparr>" "''dev-1''"
        "\<lparr>IsSecured = False, DeviceID = ''dev-1''\<rparr>" "0 :: nat"
        "\<lambda>i t (os :: unit list). (''other'', Some (Ext ''engine called''))" "[]"]
  by simp

section \<open>OwnDevice\<close>

lemma fst_emit [simp]: "fst (emit c p) = c # fst p"
  by (simp add: emit_def)

lemma snd_emit [simp]: "snd (emit c p) = snd p"
  by (simp add: emit_def)

lemma fst_prepend [simp]: "fst (prepend cs p) = cs @ fst p"
  by (simp add: prepend_def)

lemma snd_prepend [simp]: "snd (prepend cs p) = snd p"
  by (simp add: prepend_def)

lemma emit_pair [simp]: "emit c (cs, r) = (c # cs, r)"
  by (simp add: emit_def)

lemma prepend_pair [simp]: "prepend cs (ds, r) = (cs @ ds, r)"
  by (simp add: prepend_def)



lemmas sample_defs =
  sample_env_def sample_otm_def sample_doxm_def sample_addr_def sample_pstat_def sample_probe_def
  pending_pstat_def pending_env_def owned_env_def mismatch_env_def legacy_env_def DoxmUpdate_zero_def ProvisionStatusUpdateRequest_zero_def

lemmas OwnDevice_defs =
  OwnDevice_def OwnDevice_found_def OwnDevice_tls_def OwnDevice_owner_def OwnDevice_acl_def
  ownDeviceFindClient_def newDeviceOwnershipHandler_def Handle_def Error_def Err_def Client_def
  GetOwnership_def IsIotivity_def iotivityHack_def NewCoapClient_def UDPScheme_def
  Content_def AppCBOR_def AppOcfCbor_def errMsg_def andThen_def Let_def

text \<open>
  C6: when the device that discovery found does not list the OTM client's method
  among its supported owner transfer methods, OwnDevice fails with the error
  "ownership transfer method '%v' is unsupported, supported are: %v", formatted with
  the requested method and the device's supported list, and makes no call but the
  discovery and the deferred Close: nothing is written to the Ownership Document.
\<close>

theorem OwnDevice_unsupported_method:
  assumes "ownDeviceFindClient deviceID (GetDeviceOwnership_reply e) = Inr client"
    and "otm_Type otmClient \<notin> set (SupportedOwnerTransferMethods (GetOwnership client))"
  shows "OwnDevice e otmClient deviceID =
     ([Call_GetDeviceOwnership, Call_client_Close],
      Some (Errorf ''cannot own device %v: %v'' [AStr deviceID, ASprintf
            ''ownership transfer method '%v' is unsupported, supported are: %v''
            [AOtm (otm_Type otmClient), AOtms (SupportedOwnerTransferMethods (GetOwnership client))]]))"
  using assms by (simp add: OwnDevice_def OwnDevice_found_def emit_def errMsg_def)

theorem OwnDevice_unsupported_method_witness:
  "ownDeviceFindClient ''dev-1'' (GetDeviceOwnership_reply sample_env)
     = Inr \<lparr>coapClient = \<lparr>clientConn = 1, scheme = ''coap''\<rparr>, ownership = sample_doxm\<rparr>
   \<and> otm_Type (sample_otm\<lparr>otm_Type := 1\<rparr>) \<notin> set (SupportedOwnerTransferMethods sample_doxm)
   \<and> OwnDevice sample_env (sample_otm\<lparr>otm_Type := 1\<rparr>) ''dev-1'' =
     ([Call_GetDeviceOwnership, Call_client_Close],
      Some (Errorf ''cannot own device %v: %v'' [AStr ''dev-1'', ASprintf
            ''ownership transfer method '%v' is unsupported, supported are: %v''
            [AOtm 1, AOtms [0, 2]]]))"
  using OwnDevice_unsupported_method
    [of "''dev-1''" sample_env "\<lparr>coapClient = \<lparr>clientConn = 1, scheme = ''coap''\<rparr>, ownership = sample_doxm\<rparr>"
        "sample_otm\<lparr>otm_Type := 1\<rparr>"]
  by (simp add: sample_defs ownDeviceFindClient_def newDeviceOwnershipHandler_def Handle_def
      Client_def GetOwnership_def NewCoapClient_def UDPScheme_def)

lemma OwnDevice_tls_gate:
  assumes "pstat_reply e = Inr ps"
    and "Pending (DeviceOnboardingState ps)
         \<or> CurrentOrPendingOperationalState (DeviceOnboardingState ps) \<noteq> OperationalState_RFOTM"
  shows "fst (OwnDevice_tls e otmClient sdkID deviceID) = [Call_tls_GetResource ''/oic/sec/pstat'' []]"
    and "snd (OwnDevice_tls e otmClient sdkID deviceID) \<noteq> None"
  using assms by (auto simp: OwnDevice_tls_def)

text \<open>
  C1, as the code has it: OwnDevice dials the secure session first and reads the
  Provisioning Status Document over it. When that document reports pending == true or
  an operational state other than ReadyForOTM, OwnDevice makes no call that changes
  the device over the session (no update, no delete, no credential provisioning),
  and once it has read the document it fails right there: the read follows the dial
  and only the deferred Close follows the read.
\<close>

theorem OwnDevice_precondition_gate:
  assumes "pstat_reply e = Inr ps"
    and "Pending (DeviceOnboardingState ps)
         \<or> CurrentOrPendingOperationalState (DeviceOnboardingState ps) \<noteq> OperationalState_RFOTM"
  shows "list_all (\<lambda>c. \<not> writesOverSession c) (fst (OwnDevice e otmClient deviceID))
     \<and> (Call_tls_GetResource ''/oic/sec/pstat'' [] \<in> set (fst (OwnDevice e otmClient deviceID)) \<longrightarrow>
          snd (OwnDevice e otmClient deviceID) \<noteq> None
          \<and> (\<exists>pre tlsAddr. fst (OwnDevice e otmClient deviceID) =
                pre @ [Call_otm_Dial tlsAddr, Call_tls_GetResource ''/oic/sec/pstat'' [], Call_client_Close]))"
  using OwnDevice_tls_gate [OF assms]
  by (auto simp: OwnDevice_def OwnDevice_found_def Let_def split: sum.splits option.splits)

theorem OwnDevice_precondition_gate_witness:
  "pstat_reply pending_env = Inr pending_pstat
   \<and> Pending (DeviceOnboardingState pending_pstat)
   \<and> list_all (\<lambda>c. \<not> writesOverSession c) (fst (OwnDevice pending_env sample_otm ''dev-1''))
   \<and> Call_tls_GetResource ''/oic/sec/pstat'' [] \<in> set (fst (OwnDevice pending_env sample_otm ''dev-1''))
   \<and> snd (OwnDevice pending_env sample_otm ''dev-1'') \<noteq> None"
  using OwnDevice_precondition_gate [of pending_env pending_pstat sample_otm "''dev-1''"]
  by (simp add: sample_defs OwnDevice_defs)

text \<open>
  C1 as stated fails: for the sample device reporting pending == true, OwnDevice has
  called Dial on the OTM client before it fails.
\<close>

theorem OwnDevice_dials_before_gate:
  "Pending (DeviceOnboardingState pending_pstat)
   \<and> pstat_reply pending_env = Inr pending_pstat
   \<and> OwnDevice pending_env sample_otm ''dev-1''
     = ([Call_GetDeviceOwnership, Call_GetSdkDeviceID,
         Call_client_UpdateResource ''/oic/sec/doxm''
           (Body_DoxmUpdate (DoxmUpdate_zero\<lparr>upd_SelectOwnerTransferMethod := 2\<rparr>)),
         Call_GetDevice ''dev-1'',
         Call_otm_Dial sample_addr,
         Call_tls_GetResource ''/oic/sec/pstat'' [],
         Call_client_Close],
        Some (Errorf ''cannot own device %v: %v'' [AStr ''dev-1'', AErr (Some (Errorf
            ''device pending for operation state %v'' [AState OperationalState_RFOTM]))]))"
  by (simp add: sample_defs OwnDevice_defs)









text \<open>
  C4, as the code has it: the ownership of the discovered device is looked at only
  when the write that selects the OTM is refused. For a device that supports the
  method and is owned, a refused select-OTM write makes OwnDevice return nil when
  the owner is the caller's identity, with no call after that write but the deferred
  Close (no credential provisioning), and the error "device is already owned by
  <owner>" when the owner is another identity.
\<close>

theorem OwnDevice_already_owned:
  assumes "ownDeviceFindClient deviceID (GetDeviceOwnership_reply e) = Inr client"
    and "otm_Type otmClient \<in> set (SupportedOwnerTransferMethods (GetOwnership client))"
    and "GetSdkDeviceID_reply e = Inr sdkID"
    and "selectOTM_reply e = Some err"
    and "Owned (GetOwnership client)"
  shows "OwnDevice e otmClient deviceID =
     ([Call_GetDeviceOwnership, Call_GetSdkDeviceID,
       Call_client_UpdateResource ''/oic/sec/doxm''
         (Body_DoxmUpdate (DoxmUpdate_zero\<lparr>upd_SelectOwnerTransferMethod := otm_Type otmClient\<rparr>)),
       Call_client_Close],
      if DeviceOwner (GetOwnership client) = sdkID then None
      else Some (Errorf ''cannot own device %v: %v'' [AStr deviceID, AErr (Some (Errorf
             ''device is already owned by %v'' [AStr (DeviceOwner (GetOwnership client))]))]))"
  using assms by (simp add: OwnDevice_def OwnDevice_found_def errMsg_def)

theorem OwnDevice_already_owned_witness:
  "ownDeviceFindClient ''dev-1'' (GetDeviceOwnership_reply ((owned_env ''sdk-1'')\<lparr>selectOTM_reply := Some (Ext ''4.01'')\<rparr>))
     = Inr \<lparr>coapClient = \<lparr>clientConn = 1, scheme = ''coap''\<rparr>,
            ownership = sample_doxm\<lparr>Owned := True, DeviceOwner := ''sdk-1''\<rparr>\<rparr>
   \<and> OwnDevice ((owned_env ''sdk-1'')\<lparr>selectOTM_reply := Some (Ext ''4.01'')\<rparr>) sample_otm ''dev-1'' =
     ([Call_GetDeviceOwnership, Call_GetSdkDeviceID,
       Call_client_UpdateResource ''/oic/sec/doxm''
         (Body_DoxmUpdate (DoxmUpdate_zero\<lparr>upd_SelectOwnerTransferMethod := 2\<rparr>)),
       Call_client_Close],
      None)"
  using OwnDevice_already_owned
    [of "''dev-1''" "(owned_env ''sdk-1'')\<lparr>selectOTM_reply := Some (Ext ''4.01'')\<rparr>"
        "\<lparr>coapClient = \<lparr>clientConn = 1, scheme = ''coap''\<rparr>,
            ownership = sample_doxm\<lparr>Owned := True, DeviceOwner := ''sdk-1''\<rparr>\<rparr>"
        sample_otm "''sdk-1''" "Ext ''4.01''"]
  by (simp add: sample_defs OwnDevice_defs)

text \<open>
  C4 as stated fails: a device already owned by the caller's identity that accepts
  the select-OTM write is provisioned again, and for a device owned by another
  identity that accepts that write OwnDevice returns nil.
\<close>

theorem OwnDevice_owned_reprovisions:
  "Owned (GetOwnership \<lparr>coapClient = \<lparr>clientConn = 1, scheme = ''coap''\<rparr>,
            ownership = sample_doxm\<lparr>Owned := True, DeviceOwner := ''sdk-1''\<rparr>\<rparr>)
   \<and> ownDeviceFindClient ''dev-1'' (GetDeviceOwnership_reply (owned_env ''sdk-1''))
     = Inr \<lparr>coapClient = \<lparr>clientConn = 1, scheme = ''coap''\<rparr>,
            ownership = sample_doxm\<lparr>Owned := True, DeviceOwner := ''sdk-1''\<rparr>\<rparr>
   \<and> GetSdkDeviceID_reply (owned_env ''sdk-1'') = Inr ''sdk-1''
   \<and> Call_otm_ProvisionOwnerCredentials ''sdk-1'' ''dev-1'' \<in> set (fst (OwnDevice (owned_env ''sdk-1'') sample_otm ''dev-1''))
   \<and> ownDeviceFindClient ''dev-1'' (GetDeviceOwnership_reply (owned_env ''other''))
     = Inr \<lparr>coapClient = \<lparr>clientConn = 1, scheme = ''coap''\<rparr>,
            ownership = sample_doxm\<lparr>Owned := True, DeviceOwner := ''other''\<rparr>\<rparr>
   \<and> snd (OwnDevice (owned_env ''other'') sample_otm ''dev-1'') = None"
  by (simp add: sample_defs OwnDevice_defs)










section \<open>ProvisionOwnerCredentials\<close>





section \<open>Discovery\<close>

lemma runDiscovery_ended: "ended g \<Longrightarrow> runDiscovery c d g = g"
  by (cases g) (auto simp: ended_def)

lemma runDiscovery_carries: "carries c g \<Longrightarrow> carries c (runDiscovery c d g)"
  by (cases g) (auto simp: carries_def transportError_def split: option.splits)

lemma carries_error:
  assumes "list_all2 carries conn gs" and "i < length gs"
    and "gs ! i = G_sending err \<or> gs ! i = G_offering err"
  shows "list_ex (\<lambda>c. transportError c = Some err) conn"
proof -
  have "carries (conn ! i) (gs ! i)" and "i < length conn"
    using assms(1,2) by (auto simp: list_all2_conv_all_nth)
  then have "transportError (conn ! i) = Some err" and "conn ! i \<in> set conn"
    using assms(3) by (auto simp: carries_def)
  then show ?thesis
    unfolding list_ex_iff by blast
qed

lemma step_invariant: "Discover_invariant conn s \<Longrightarrow> Discover_invariant conn (step conn s x)"
proof (cases x)
  case (Run i)
  assume "Discover_invariant conn s"
  then show ?thesis
    using Run
    by (auto simp: Discover_invariant_def list_all_length nth_list_update runDiscovery_ended
        list_all2_conv_all_nth runDiscovery_carries split: option.splits)
next
  case (Receive i)
  assume "Discover_invariant conn s"
  then show ?thesis
    using Receive carries_error [of conn "goroutines s" i]
    by (auto simp: Discover_invariant_def list_all_length nth_list_update ended_def
        list_all2_conv_all_nth carries_def split: option.splits goroutine.splits)
qed (auto simp: Discover_invariant_def split: option.splits)

lemma foldl_invariant: "Discover_invariant conn s \<Longrightarrow> Discover_invariant conn (foldl (step conn) s run)"
  by (induction run arbitrary: s) (auto simp: step_invariant)

lemma Discover_invariant: "Discover_invariant conn (Discover conn run)"
  unfolding Discover_def
  by (rule foldl_invariant)
    (simp add: Discover_invariant_def Discover_init_def list_all2_conv_all_nth carries_def)








end
